theory Spec2Isabelle
  imports Main "HOL-Library.AList" "HOL-Library.DAList"
begin

section \<open>Data model\<close>

text \<open>
  The two scripts (\<^verbatim>\<open>roi-report-poc.py\<close> and \<^verbatim>\<open>roi-report-seaborn.py\<close>) read JSON
  delivered by the case-management service. The values they touch are scalars: the case
  identifiers of the search response and the \<^verbatim>\<open>playbookAttached\<close> field of an alert
  card, which is a playbook name or \<^verbatim>\<open>null\<close>. A scalar is hashable, so it can be a key
  of a Python dictionary, and Python's equality on these values is equality of the
  constructors below.
\<close>

datatype jval = JNull | JNum int | JStr string

text \<open>A JSON object, read by subscript only: \<^verbatim>\<open>obj['k']\<close> raises KeyError when absent.\<close>

type_synonym jobj = "string \<rightharpoonup> jval"

datatype error = KeyError | ValueError

text \<open>
  A Python \<^verbatim>\<open>dict\<close> that is iterated or printed keeps its keys distinct and in insertion
  order; storing under an existing key keeps the key's position. This is the type of
  association lists with distinct keys, with \<open>DAList.update\<close> as the store.
\<close>

type_synonym totals = "(jval, int) alist"

text \<open>
  An HTTP response as the scripts read it: \<^verbatim>\<open>status_code\<close>, \<^verbatim>\<open>text\<close> (here
  \<open>response_text\<close>, as \<open>text\<close> is a keyword), and the decoded body
  \<^verbatim>\<open>json()\<close>, an object whose fields (\<^verbatim>\<open>results\<close>, \<^verbatim>\<open>alertCards\<close>) hold arrays of objects.
\<close>

record response =
  status_code :: int
  response_text :: string
  json :: "string \<rightharpoonup> jobj list"

text \<open>
  The two requests the scripts issue. The search body is fixed apart from the reporting
  window; instants are microseconds since the epoch (the instant the ISO-8601 string
  denotes).
\<close>

datatype request =
    CaseSearchEverything int int
  | GetCaseDetails jval

text \<open>What is written to standard output, one constructor per \<^verbatim>\<open>print\<close> in the source.\<close>

datatype out =
    ErrorLine int string
  | BlankLine
  | PPrint totals
  | Line string
  | SummaryLine jval int

text \<open>
  The module-level variables of the scripts, together with the trace of standard output
  and of the HTTP requests issued so far.
\<close>

record state =
  playbook_time_def_map :: "jval \<rightharpoonup> int"
  startTime :: int
  endTime :: int
  roi_counts :: totals
  stdout :: "out list"
  requests :: "request list"

section \<open>Minutes Aggregator\<close>

text \<open>
  The body of the loop \<^verbatim>\<open>for pb in playbook_attached_list\<close>
  (\<^verbatim>\<open>roi-report-poc.py\<close> lines 133-142, \<^verbatim>\<open>roi-report-seaborn.py\<close> lines 132-141):
  \<^verbatim>\<open>
  try:
      if pb in roi_counts:
          roi_counts[pb] += playbook_time_def_map[pb]
      else:
          try:
              roi_counts[pb] = playbook_time_def_map[pb]
          except KeyError:
              roi_counts[pb] = playbook_time_def_map['__unconfigured__']
  except Exception:
      roi_counts[pb] += 999
  \<close>
  When \<^verbatim>\<open>pb\<close> is counted already and the table has no entry for it, the KeyError of the
  table lookup is caught by the outer handler, which adds 999. When \<^verbatim>\<open>pb\<close> is new and
  the table has neither \<^verbatim>\<open>pb\<close> nor the default key, the KeyError raised inside the inner
  handler reaches the outer handler, whose \<^verbatim>\<open>roi_counts[pb] += 999\<close> raises KeyError
  itself, as \<^verbatim>\<open>pb\<close> is not counted yet; that one propagates.
\<close>

definition count_playbook :: "jval \<Rightarrow> state \<Rightarrow> error option \<times> state" where
  "count_playbook pb st =
     (case DAList.lookup (roi_counts st) pb of
        Some v \<Rightarrow>
          (case playbook_time_def_map st pb of
             Some m \<Rightarrow> (None, st\<lparr>roi_counts := DAList.update pb (v + m) (roi_counts st)\<rparr>)
           | None \<Rightarrow> (None, st\<lparr>roi_counts := DAList.update pb (v + 999) (roi_counts st)\<rparr>))
      | None \<Rightarrow>
          (case playbook_time_def_map st pb of
             Some m \<Rightarrow> (None, st\<lparr>roi_counts := DAList.update pb m (roi_counts st)\<rparr>)
           | None \<Rightarrow>
               (case playbook_time_def_map st (JStr ''__unconfigured__'') of
                  Some d \<Rightarrow> (None, st\<lparr>roi_counts := DAList.update pb d (roi_counts st)\<rparr>)
                | None \<Rightarrow> (Some KeyError, st))))"

text \<open>The loop itself: an exception leaves the loop with the state reached so far.\<close>

fun for_playbooks :: "jval list \<Rightarrow> state \<Rightarrow> error option \<times> state" where
  "for_playbooks [] st = (None, st)"
| "for_playbooks (pb # pbs) st =
     (case count_playbook pb st of
        (None, st') \<Rightarrow> for_playbooks pbs st'
      | (Some e, st') \<Rightarrow> (Some e, st'))"

text \<open>
  \<^verbatim>\<open>[alert_card['playbookAttached'] for alert_card in json_data['alertCards']]\<close>:
  the comprehension is evaluated in full before the loop starts, and a card without the
  field raises KeyError.
\<close>

fun playbook_attached_list :: "jobj list \<Rightarrow> error + jval list" where
  "playbook_attached_list [] = Inr []"
| "playbook_attached_list (alert_card # cards) =
     (case alert_card ''playbookAttached'' of
        None \<Rightarrow> Inl KeyError
      | Some pb \<Rightarrow>
          (case playbook_attached_list cards of
             Inl e \<Rightarrow> Inl e
           | Inr pbs \<Rightarrow> Inr (pb # pbs)))"

text \<open>
  \<^verbatim>\<open>sum_hours_saved_by_case_id(case_id)\<close> of \<^verbatim>\<open>roi-report-poc.py\<close>. The network is a
  function from the request to the response delivered.
\<close>

definition sum_hours_saved_by_case_id ::
  "(request \<Rightarrow> response) \<Rightarrow> jval \<Rightarrow> state \<Rightarrow> error option \<times> state" where
  "sum_hours_saved_by_case_id net case_id st =
     (let response = net (GetCaseDetails case_id);
          st1 = st\<lparr>requests := requests st @ [GetCaseDetails case_id]\<rparr>
      in if status_code response = 200 then
           (case json response ''alertCards'' of
              None \<Rightarrow> (Some KeyError, st1)
            | Some cards \<Rightarrow>
                (case playbook_attached_list cards of
                   Inl e \<Rightarrow> (Some e, st1)
                 | Inr pbs \<Rightarrow>
                     (case for_playbooks pbs st1 of
                        (Some e, st2) \<Rightarrow> (Some e, st2)
                      | (None, st2) \<Rightarrow>
                          (None, st2\<lparr>stdout := stdout st2 @ [BlankLine, PPrint (roi_counts st2)]\<rparr>))))
         else (None, st1\<lparr>stdout := stdout st1 @ [ErrorLine (status_code response) (response_text response)]\<rparr>))"

text \<open>
  \<^verbatim>\<open>sum_minutes_saved_by_case_id\<close> of \<^verbatim>\<open>roi-report-seaborn.py\<close> has the same body, line
  for line.
\<close>

definition sum_minutes_saved_by_case_id ::
  "(request \<Rightarrow> response) \<Rightarrow> jval \<Rightarrow> state \<Rightarrow> error option \<times> state" where
  "sum_minutes_saved_by_case_id = sum_hours_saved_by_case_id"

section \<open>Case Lister\<close>

text \<open>
  The loop of \<^verbatim>\<open>get_case_ids\<close>:
  \<^verbatim>\<open>for result in json_data['results']: case_id_list.append(result['id'])\<close>.
\<close>

fun case_id_list :: "jobj list \<Rightarrow> error + jval list" where
  "case_id_list [] = Inr []"
| "case_id_list (result # results) =
     (case result ''id'' of
        None \<Rightarrow> Inl KeyError
      | Some i \<Rightarrow>
          (case case_id_list results of
             Inl e \<Rightarrow> Inl e
           | Inr ids \<Rightarrow> Inr (i # ids)))"

text \<open>
  \<^verbatim>\<open>get_case_ids()\<close>, the same in both scripts: one POST with the window read from the
  module-level \<^verbatim>\<open>startTime\<close> and \<^verbatim>\<open>endTime\<close>.
\<close>

definition get_case_ids ::
  "(request \<Rightarrow> response) \<Rightarrow> state \<Rightarrow> (error + jval list) \<times> state" where
  "get_case_ids net st =
     (let response = net (CaseSearchEverything (startTime st) (endTime st));
          st1 = st\<lparr>requests := requests st @ [CaseSearchEverything (startTime st) (endTime st)]\<rparr>
      in if status_code response = 200 then
           (case json response ''results'' of
              None \<Rightarrow> (Inl KeyError, st1)
            | Some results \<Rightarrow> (case_id_list results, st1))
         else (Inr [], st1\<lparr>stdout := stdout st1 @ [ErrorLine (status_code response) (response_text response)]\<rparr>))"

section \<open>The single-window script\<close>

text \<open>
  \<^verbatim>\<open>for case_id in get_case_ids(): sum_hours_saved_by_case_id(case_id)\<close>. The multi-day
  script runs the same loop with \<^verbatim>\<open>time.sleep(1.6)\<close> before each call, which touches
  none of the variables.
\<close>

fun for_case_ids :: "(request \<Rightarrow> response) \<Rightarrow> jval list \<Rightarrow> state \<Rightarrow> error option \<times> state" where
  "for_case_ids net [] st = (None, st)"
| "for_case_ids net (case_id # ids) st =
     (case sum_hours_saved_by_case_id net case_id st of
        (None, st') \<Rightarrow> for_case_ids net ids st'
      | (Some e, st') \<Rightarrow> (Some e, st'))"

text \<open>The \<^verbatim>\<open>__main__\<close> block of \<^verbatim>\<open>roi-report-poc.py\<close>.\<close>

definition main_poc :: "(request \<Rightarrow> response) \<Rightarrow> state \<Rightarrow> error option \<times> state" where
  "main_poc net st =
     (case get_case_ids net st of
        (Inl e, st1) \<Rightarrow> (Some e, st1)
      | (Inr ids, st1) \<Rightarrow>
          (case for_case_ids net ids st1 of
             (Some e, st2) \<Rightarrow> (Some e, st2)
           | (None, st2) \<Rightarrow>
               (None, st2\<lparr>stdout := stdout st2 @
                  [Line (replicate 3 (CHR 0x0A) @ ''Hours saved by playbook:'' @ [CHR 0x0A]),
                   PPrint (roi_counts st2)]\<rparr>)))"

text \<open>
  The start of both scripts: the check of the environment, then the module-level
  variables. The table and the window are the constants of the \<^verbatim>\<open>EDIT HERE\<close> block, so
  they are parameters here; the table as shipped is \<open>shipped_playbook_time_def_map\<close>.
\<close>

definition shipped_playbook_time_def_map :: "jval \<rightharpoonup> int" where
  "shipped_playbook_time_def_map =
     [JStr ''Enrich Defender ATP Alerts'' \<mapsto> 30,
      JStr ''Enrich Falcon Alerts'' \<mapsto> 5,
      JStr ''Enrich FireEye Alerts'' \<mapsto> 25,
      JStr ''Enrich Rapid7  Alerts'' \<mapsto> 60,
      JStr ''__unconfigured__'' \<mapsto> 10]"

definition required_env_vars :: "string list" where
  "required_env_vars = [''APP_KEY'', ''BASE_URL'']"

definition missing_vars :: "(string \<rightharpoonup> string) \<Rightarrow> string list" where
  "missing_vars environ = filter (\<lambda>var. environ var = None) required_env_vars"

text \<open>\<^verbatim>\<open>sep.join(xs)\<close> on strings.\<close>

fun join :: "string \<Rightarrow> string list \<Rightarrow> string" where
  "join sep [] = []"
| "join sep [x] = x"
| "join sep (x # y # ys) = x @ sep @ join sep (y # ys)"

definition error_message :: "(string \<rightharpoonup> string) \<Rightarrow> string" where
  "error_message environ =
     ''Error: The following environment variables are missing: '' @ join '', '' (missing_vars environ)"

datatype err_out = Message string | Traceback error

text \<open>
  What a run leaves behind: the exit code of the process, standard error, and the final
  state. An exception that nothing catches ends the interpreter with a traceback on
  standard error and exit code 1.
\<close>

record outcome =
  exit_code :: int
  stderr :: "err_out list"
  final :: state

definition initial_state :: "(jval \<rightharpoonup> int) \<Rightarrow> int \<Rightarrow> int \<Rightarrow> state" where
  "initial_state table start_time end_time =
     \<lparr>playbook_time_def_map = table, startTime = start_time, endTime = end_time,
      roi_counts = DAList.empty, stdout = [], requests = []\<rparr>"

definition roi_report_poc ::
  "(jval \<rightharpoonup> int) \<Rightarrow> int \<Rightarrow> int \<Rightarrow> (string \<rightharpoonup> string) \<Rightarrow> (request \<Rightarrow> response) \<Rightarrow> outcome" where
  "roi_report_poc table start_time end_time environ net =
     (if missing_vars environ \<noteq> [] then
        \<lparr>exit_code = 1, stderr = [Message (error_message environ)],
         final = initial_state table start_time end_time\<rparr>
      else
        (case main_poc net (initial_state table start_time end_time) of
           (None, st) \<Rightarrow> \<lparr>exit_code = 0, stderr = [], final = st\<rparr>
         | (Some e, st) \<Rightarrow> \<lparr>exit_code = 1, stderr = [Traceback e], final = st\<rparr>))"

section \<open>The multi-day script\<close>

text \<open>
  A naive \<^verbatim>\<open>datetime\<close> is a point of a linear time line without leap seconds, here in
  microseconds. \<^verbatim>\<open>replace(hour=0, minute=0, second=0, microsecond=0)\<close> goes back to the
  start of the day; \<^verbatim>\<open>timedelta(days=k)\<close> is \<open>k\<close> days of 86400 seconds.
\<close>

definition usec_per_day :: int where
  "usec_per_day = 86400000000"

definition midnight :: "int \<Rightarrow> int" where
  "midnight t = t - t mod usec_per_day"

text \<open>
  Lines 156-157 of \<^verbatim>\<open>roi-report-seaborn.py\<close>, for the clock reading \<open>now\<close> and the loop
  index \<open>i\<close>:
  \<^verbatim>\<open>
  end_date = datetime.datetime.utcnow().replace(hour=0, minute=0, second=0, microsecond=0)
  start_date = end_date - datetime.timedelta(days=i + 1)
  \<close>
\<close>

definition day_window :: "int \<Rightarrow> nat \<Rightarrow> int \<times> int" where
  "day_window now i =
     (let end_date = midnight now;
          start_date = end_date - (int i + 1) * usec_per_day
      in (start_date, end_date))"

text \<open>
  Lines 170-174: \<^verbatim>\<open>for playbook, minutes in roi_counts.items()\<close>, adding into
  \<^verbatim>\<open>total_minutes_saved\<close> (here \<open>grand\<close>).
\<close>

fun add_minutes :: "(jval \<times> int) list \<Rightarrow> totals \<Rightarrow> totals" where
  "add_minutes [] grand = grand"
| "add_minutes ((playbook, minutes) # items) grand =
     add_minutes items
       (case DAList.lookup grand playbook of
          Some t \<Rightarrow> DAList.update playbook (t + minutes) grand
        | None \<Rightarrow> DAList.update playbook minutes grand)"

text \<open>
  The two dictionaries of the \<^verbatim>\<open>__main__\<close> block. \<^verbatim>\<open>all_roi_counts\<close> is keyed by
  \<^verbatim>\<open>start_date.strftime("%Y-%m-%d")\<close>, the calendar day of \<^verbatim>\<open>start_date\<close>, here the number
  of that day.
\<close>

record report =
  all_roi_counts :: "(int, totals) alist"
  total_minutes_saved :: totals

text \<open>
  The loop \<^verbatim>\<open>for i in range(3)\<close> (lines 154-174), over the list of indices still to run.
  \<open>utcnow i\<close> is what the clock reads in iteration \<open>i\<close>.
\<close>

fun for_days ::
  "(request \<Rightarrow> response) \<Rightarrow> (nat \<Rightarrow> int) \<Rightarrow> nat list \<Rightarrow> report \<times> state
    \<Rightarrow> error option \<times> report \<times> state" where
  "for_days net utcnow [] (rep, st) = (None, rep, st)"
| "for_days net utcnow (i # is) (rep, st) =
     (let (start_date, end_date) = day_window (utcnow i) i;
          st0 = st\<lparr>startTime := start_date, endTime := end_date, roi_counts := DAList.empty\<rparr>
      in case get_case_ids net st0 of
           (Inl e, st1) \<Rightarrow> (Some e, rep, st1)
         | (Inr ids, st1) \<Rightarrow>
             (case for_case_ids net ids st1 of
                (Some e, st2) \<Rightarrow> (Some e, rep, st2)
              | (None, st2) \<Rightarrow>
                  for_days net utcnow is
                    (\<lparr>all_roi_counts =
                        DAList.update (start_date div usec_per_day) (roi_counts st2) (all_roi_counts rep),
                      total_minutes_saved =
                        add_minutes (DAList.impl_of (roi_counts st2)) (total_minutes_saved rep)\<rparr>,
                     st2)))"

text \<open>Lines 151-152: \<^verbatim>\<open>all_roi_counts = {}\<close> and \<^verbatim>\<open>total_minutes_saved = {}\<close>.\<close>

definition empty_report :: report where
  "empty_report = \<lparr>all_roi_counts = DAList.empty, total_minutes_saved = DAList.empty\<rparr>"

text \<open>\<^verbatim>\<open>for playbook, minutes in total_minutes_saved.items(): print(f"{playbook}: {minutes}")\<close>\<close>

definition summary_lines :: "totals \<Rightarrow> out list" where
  "summary_lines grand = map (\<lambda>(playbook, minutes). SummaryLine playbook minutes) (DAList.impl_of grand)"

text \<open>
  Lines 177-180, the rows of the data frame of the bar chart, one for every entry of every
  day of \<^verbatim>\<open>all_roi_counts\<close>, as (Day, Playbook, Minutes Saved):
  \<^verbatim>\<open>
  for day, counts in all_roi_counts.items():
      for playbook, minutes in counts.items():
          data.append({"Day": day, "Playbook": playbook, "Minutes Saved": minutes})
  \<close>
\<close>

definition chart_data :: "(int, totals) alist \<Rightarrow> (int \<times> jval \<times> int) list" where
  "chart_data counts_by_day =
     concat (map (\<lambda>(day, counts).
                    map (\<lambda>(playbook, minutes). (day, playbook, minutes)) (DAList.impl_of counts))
                 (DAList.impl_of counts_by_day))"

text \<open>
  The \<^verbatim>\<open>__main__\<close> block of \<^verbatim>\<open>roi-report-seaborn.py\<close>: the day loop, the bar chart (lines
  182-190), the printed summary (lines 193-195) and the pie chart (lines 198-202). The
  charts are drawn by pandas, seaborn and matplotlib, which are not part of the
  repository: \<open>barplot\<close> stands for the calls of lines 182-190 on the rows of the data
  frame, and \<open>pie\<close> for the calls of lines 198-202 on \<^verbatim>\<open>total_minutes_saved\<close>. Each tells
  whether the drawing raises. An exception of the bar chart ends the script before the
  summary is printed; one of the pie chart ends it after.
\<close>

definition main_seaborn ::
  "((int \<times> jval \<times> int) list \<Rightarrow> error option) \<Rightarrow> (totals \<Rightarrow> error option) \<Rightarrow>
   (request \<Rightarrow> response) \<Rightarrow> (nat \<Rightarrow> int) \<Rightarrow> state \<Rightarrow> error option \<times> report \<times> state" where
  "main_seaborn barplot pie net utcnow st =
     (case for_days net utcnow [0..<3] (empty_report, st) of
        (Some e, rep, st') \<Rightarrow> (Some e, rep, st')
      | (None, rep, st') \<Rightarrow>
          (case barplot (chart_data (all_roi_counts rep)) of
             Some e \<Rightarrow> (Some e, rep, st')
           | None \<Rightarrow>
               (pie (total_minutes_saved rep), rep,
                st'\<lparr>stdout := stdout st' @
                   Line (CHR 0x0A # ''Total Minutes Saved per Playbook:'')
                   # summary_lines (total_minutes_saved rep)\<rparr>)))"

text \<open>
  The Running Totals as they stand at the end of each iteration of the day loop, in the
  order of the iterations: the state after the first \<open>k + 1\<close> iterations holds those of
  iteration \<open>k\<close>.
\<close>

definition day_totals ::
  "(request \<Rightarrow> response) \<Rightarrow> (nat \<Rightarrow> int) \<Rightarrow> nat list \<Rightarrow> report \<times> state \<Rightarrow> totals list" where
  "day_totals net utcnow is s =
     map (\<lambda>k. roi_counts (snd (snd (for_days net utcnow (take (Suc k) is) s)))) [0..<length is]"

section \<open>The specification's reading of the totals\<close>

text \<open>
  The minutes the specification expects for a playbook name \<open>P\<close> after the cards naming
  \<open>pbs\<close>: for every card naming \<open>P\<close>, the table's entry for that name, or the entry of the
  default key when the name is not in the table.
\<close>

definition expected_minutes :: "(jval \<rightharpoonup> int) \<Rightarrow> jval list \<Rightarrow> jval \<Rightarrow> int option" where
  "expected_minutes table pbs P =
     (case table (JStr ''__unconfigured__'') of
        None \<Rightarrow> None
      | Some d \<Rightarrow>
          Some (\<Sum>pb\<leftarrow>filter (\<lambda>pb. pb = P) pbs. (case table pb of Some m \<Rightarrow> m | None \<Rightarrow> d)))"

text \<open>
  The grand total the specification expects for \<open>P\<close> over the per-day totals \<open>days\<close>: the
  sum of the days' entries, a day without an entry counting 0; no entry when no day has one.
\<close>

definition expected_grand_total :: "totals list \<Rightarrow> jval \<Rightarrow> int option" where
  "expected_grand_total days P =
     (if \<exists>d \<in> set days. DAList.lookup d P \<noteq> None
      then Some (\<Sum>d\<leftarrow>days. (case DAList.lookup d P of Some m \<Rightarrow> m | None \<Rightarrow> 0))
      else None)"

section \<open>Concrete inputs\<close>

text \<open>The table of the specification's worked example.\<close>

definition example_table :: "jval \<rightharpoonup> int" where
  "example_table = [JStr ''A'' \<mapsto> 30, JStr ''__unconfigured__'' \<mapsto> 10]"

text \<open>
  A service that knows two cases: case 1 with alert cards naming A and B, case 2 with one
  alert card naming A.
\<close>

definition example_net :: "request \<Rightarrow> response" where
  "example_net req =
     (case req of
        CaseSearchEverything s e \<Rightarrow>
          \<lparr>status_code = 200, response_text = [],
           json = [''results'' \<mapsto> [[''id'' \<mapsto> JNum 1], [''id'' \<mapsto> JNum 2]]]\<rparr>
      | GetCaseDetails c \<Rightarrow>
          (if c = JNum 1 then
             \<lparr>status_code = 200, response_text = [],
              json = [''alertCards'' \<mapsto>
                [[''playbookAttached'' \<mapsto> JStr ''A''], [''playbookAttached'' \<mapsto> JStr ''B'']]]\<rparr>
           else if c = JNum 2 then
             \<lparr>status_code = 200, response_text = [],
              json = [''alertCards'' \<mapsto> [[''playbookAttached'' \<mapsto> JStr ''A'']]]\<rparr>
           else \<lparr>status_code = 404, response_text = ''Not Found'', json = Map.empty\<rparr>))"

text \<open>A service that answers every request with status 503.\<close>

definition net_unavailable :: "request \<Rightarrow> response" where
  "net_unavailable req =
     \<lparr>status_code = 503, response_text = ''Service Unavailable'', json = Map.empty\<rparr>"

text \<open>
  A service whose only case has two alert cards: the first names A, the second has an
  identifier and no \<^verbatim>\<open>playbookAttached\<close> field.
\<close>

definition net_card_without_field :: "request \<Rightarrow> response" where
  "net_card_without_field req =
     (case req of
        CaseSearchEverything s e \<Rightarrow>
          \<lparr>status_code = 200, response_text = [], json = [''results'' \<mapsto> [[''id'' \<mapsto> JNum 1]]]\<rparr>
      | GetCaseDetails c \<Rightarrow>
          \<lparr>status_code = 200, response_text = [],
           json = [''alertCards'' \<mapsto>
             [[''playbookAttached'' \<mapsto> JStr ''A''], [''identifier'' \<mapsto> JStr ''card-2'']]]\<rparr>)"

section \<open>The increment step\<close>

text \<open>
  Claim C4. In an increment step where the playbook name is a key of Running Totals
  already and is not a key of the Playbook Time Table, the aggregator does not fail: it
  adds 999 to the entry of that name and nothing else changes.
\<close>

theorem C4_penalty_increment:
  assumes "DAList.lookup (roi_counts st) pb = Some v"
      and "playbook_time_def_map st pb = None"
    shows "count_playbook pb st =
             (None, st\<lparr>roi_counts := DAList.update pb (v + 999) (roi_counts st)\<rparr>)"
  using assms by (simp add: count_playbook_def)

theorem C4_penalty_increment_witness:
  "DAList.lookup (DAList.update (JStr ''B'') 10 DAList.empty) (JStr ''B'') = Some 10 \<and>
   example_table (JStr ''B'') = None \<and>
   count_playbook (JStr ''B'')
     ((initial_state example_table 0 0)\<lparr>roi_counts := DAList.update (JStr ''B'') 10 DAList.empty\<rparr>) =
     (None, (initial_state example_table 0 0)
        \<lparr>roi_counts := DAList.update (JStr ''B'') 1009 DAList.empty\<rparr>)"
  using C4_penalty_increment
    [of "(initial_state example_table 0 0)\<lparr>roi_counts := DAList.update (JStr ''B'') 10 DAList.empty\<rparr>"
        "JStr ''B''" 10]
  by (simp add: initial_state_def example_table_def)

text \<open>
  Claim C1, at the input where it fails. With the table \<open>{A: 30, __unconfigured__: 10}\<close>
  and two alert cards naming B, a name that is not in the table, the loop leaves
  \<open>{B: 1009}\<close>: the first card counts the default 10, the second one 999. The sum the
  claim states is 20.
\<close>

theorem C1_unconfigured_name_twice:
  "for_playbooks [JStr ''B'', JStr ''B''] (initial_state example_table s e) =
     (None, (initial_state example_table s e)
        \<lparr>roi_counts := DAList.update (JStr ''B'') 1009 DAList.empty\<rparr>) \<and>
   expected_minutes example_table [JStr ''B'', JStr ''B''] (JStr ''B'') = Some 20"
  by (simp add: count_playbook_def initial_state_def example_table_def expected_minutes_def
      DAList.lookup_update)

text \<open>
  What the loop computes in general, for a table that has the default key with value
  \<open>d\<close>: it never raises; a name \<open>P\<close> that is in the table gains its rate for every
  card naming it, as the specification says; a name that is not in the table gains \<open>d\<close>
  for the first card naming it, when it is not counted yet, and 999 for every other one.
\<close>

lemma count_playbook_entry:
  assumes "playbook_time_def_map st (JStr ''__unconfigured__'') = Some d"
  shows "fst (count_playbook pb st) = None \<and>
         playbook_time_def_map (snd (count_playbook pb st)) = playbook_time_def_map st \<and>
         DAList.lookup (roi_counts (snd (count_playbook pb st))) P =
           (if pb = P then
              Some (case DAList.lookup (roi_counts st) P of
                      Some v \<Rightarrow> v + (case playbook_time_def_map st P of Some m \<Rightarrow> m | None \<Rightarrow> 999)
                    | None \<Rightarrow> (case playbook_time_def_map st P of Some m \<Rightarrow> m | None \<Rightarrow> d))
            else DAList.lookup (roi_counts st) P)"
  using assms by (auto simp add: count_playbook_def DAList.lookup_update split: option.splits)

lemma for_playbooks_entry:
  assumes "playbook_time_def_map st (JStr ''__unconfigured__'') = Some d"
  shows "fst (for_playbooks pbs st) = None \<and>
         playbook_time_def_map (snd (for_playbooks pbs st)) = playbook_time_def_map st \<and>
         DAList.lookup (roi_counts (snd (for_playbooks pbs st))) P =
           (if count_list pbs P = 0 then DAList.lookup (roi_counts st) P
            else Some (case playbook_time_def_map st P of
                         Some m \<Rightarrow>
                           (case DAList.lookup (roi_counts st) P of Some v \<Rightarrow> v | None \<Rightarrow> 0)
                           + int (count_list pbs P) * m
                       | None \<Rightarrow>
                           (case DAList.lookup (roi_counts st) P of
                              Some v \<Rightarrow> v + 999 * int (count_list pbs P)
                            | None \<Rightarrow> d + 999 * (int (count_list pbs P) - 1))))"
  using assms
proof (induction pbs arbitrary: st)
  case Nil
  show ?case by simp
next
  case (Cons pb pbs)
  obtain e st' where step: "count_playbook pb st = (e, st')" by (cases "count_playbook pb st")
  from count_playbook_entry [OF Cons.prems, of pb P] step
  have e: "e = None" and tbl: "playbook_time_def_map st' = playbook_time_def_map st"
    and entry: "DAList.lookup (roi_counts st') P =
           (if pb = P then
              Some (case DAList.lookup (roi_counts st) P of
                      Some v \<Rightarrow> v + (case playbook_time_def_map st P of Some m \<Rightarrow> m | None \<Rightarrow> 999)
                    | None \<Rightarrow> (case playbook_time_def_map st P of Some m \<Rightarrow> m | None \<Rightarrow> d))
            else DAList.lookup (roi_counts st) P)"
    by simp_all
  have "playbook_time_def_map st' (JStr ''__unconfigured__'') = Some d"
    using tbl Cons.prems by simp
  from Cons.IH [OF this] step e tbl entry show ?case
    by (auto simp add: algebra_simps split: option.splits)
qed

section \<open>Failed fetches\<close>



section \<open>The worked example\<close>

text \<open>
  Claim C9. With the table \<open>{A: 30, __unconfigured__: 10}\<close>, case 1 delivering alert
  cards naming A and B and case 2 delivering one alert card naming A, all fetches
  succeeding, the single-window script ends normally and the final Running Totals is
  exactly \<open>{A: 60, B: 10}\<close>.
\<close>

theorem C9_worked_example:
  "fst (main_poc example_net (initial_state example_table s e)) = None \<and>
   DAList.impl_of (roi_counts (snd (main_poc example_net (initial_state example_table s e)))) =
     [(JStr ''A'', 60), (JStr ''B'', 10)]"
  by (simp add: main_poc_def get_case_ids_def sum_hours_saved_by_case_id_def count_playbook_def
      initial_state_def example_net_def example_table_def DAList.lookup_update
      DAList.update.rep_eq DAList.empty.rep_eq)

section \<open>The windows of the multi-day script\<close>

text \<open>
  Claim C2, at an input where it fails. With the clock reading \<open>t\<close> in every iteration
  and a service that is down, the three searches of the multi-day script ask for the
  windows that start 1, 2 and 3 days before the last midnight and that all end at the
  last midnight: the window of iteration \<open>i\<close> is \<open>i + 1\<close> days long and contains the
  windows of the iterations before it. The charts come after the searches, so the trace
  is the same whatever the drawing does.
\<close>

theorem C2_windows_end_at_last_midnight:
  "requests (snd (snd (main_seaborn barplot pie net_unavailable (\<lambda>i. t)
      (initial_state table s e)))) =
     [CaseSearchEverything (midnight t - 1 * usec_per_day) (midnight t),
      CaseSearchEverything (midnight t - 2 * usec_per_day) (midnight t),
      CaseSearchEverything (midnight t - 3 * usec_per_day) (midnight t)]"
  by (simp add: main_seaborn_def empty_report_def upt_rec get_case_ids_def day_window_def
      net_unavailable_def initial_state_def Let_def split: option.splits)

text \<open>
  On that input no case is found, the data frame has no rows, and the script goes on to
  the bar chart with it. A bar chart that raises ValueError on a frame without rows (it
  has no column named Day) ends the script there, before the summary is printed.
\<close>

lemma main_seaborn_no_data:
  assumes "barplot [] = Some ValueError"
  shows "fst (main_seaborn barplot pie net_unavailable (\<lambda>i. t) (initial_state table s e)) =
           Some ValueError \<and>
         stdout (snd (snd (main_seaborn barplot pie net_unavailable (\<lambda>i. t)
           (initial_state table s e)))) =
           [ErrorLine 503 ''Service Unavailable'', ErrorLine 503 ''Service Unavailable'',
            ErrorLine 503 ''Service Unavailable'']"
  using assms
  by (simp add: main_seaborn_def empty_report_def upt_rec get_case_ids_def day_window_def
      net_unavailable_def initial_state_def Let_def chart_data_def
      DAList.update.rep_eq DAList.empty.rep_eq)

section \<open>Alert cards without a playbook field\<close>

lemma playbook_attached_list_missing:
  "\<exists>card \<in> set cards. card ''playbookAttached'' = None \<Longrightarrow>
   playbook_attached_list cards = Inl KeyError"
proof (induction cards)
  case Nil
  then show ?case by simp
next
  case (Cons c cards)
  show ?case
  proof (cases "c ''playbookAttached''")
    case None
    then show ?thesis by simp
  next
    case (Some pb)
    with Cons.prems have "\<exists>card \<in> set cards. card ''playbookAttached'' = None" by auto
    with Cons.IH Some show ?thesis by simp
  qed
qed

text \<open>
  Claim C3 as stated fails: a case (HTTP 200) whose first alert card names A and whose
  second alert card has no \<^verbatim>\<open>playbookAttached\<close> field makes the aggregator raise KeyError,
  and the first card is not accumulated either.
\<close>

theorem C3_card_without_field_counterexample:
  "sum_hours_saved_by_case_id net_card_without_field (JNum 1) (initial_state example_table 0 0) =
     (Some KeyError, (initial_state example_table 0 0)\<lparr>requests := [GetCaseDetails (JNum 1)]\<rparr>)"
  by (simp add: sum_hours_saved_by_case_id_def net_card_without_field_def initial_state_def)

lemma for_case_ids_append:
  "for_case_ids net (xs @ ys) st0 =
     (case for_case_ids net xs st0 of
        (None, st) \<Rightarrow> for_case_ids net ys st
      | (Some e, st) \<Rightarrow> (Some e, st))"
proof (induction xs arbitrary: st0)
  case Nil
  show ?case by simp
next
  case (Cons x xs)
  obtain e st where step: "sum_hours_saved_by_case_id net x st0 = (e, st)"
    by (cases "sum_hours_saved_by_case_id net x st0")
  show ?case
  proof (cases e)
    case None
    with step Cons.IH [of st] show ?thesis by simp
  next
    case (Some err)
    with step show ?thesis by simp
  qed
qed

text \<open>
  Claim C3, amended. For every case-detail payload (HTTP 200) in which some alert card
  carries no \<^verbatim>\<open>playbookAttached\<close> field, the Minutes Aggregator raises KeyError while it
  extracts the names, before the accumulation loop starts: no card of the case is
  accumulated and the state differs from the one before the call in the request trace
  only. Nothing handles the exception. It leaves the loop over the cases, whatever the
  cases before it (which have been processed) and after it (which are not fetched); it
  leaves the main block of the single-window script, which prints no report; and the
  script ends with exit code 1 and the traceback on standard error.
\<close>

theorem C3_card_without_field_raises:
  assumes "status_code (net (GetCaseDetails case_id)) = 200"
      and "json (net (GetCaseDetails case_id)) ''alertCards'' = Some cards"
      and "\<exists>card \<in> set cards. card ''playbookAttached'' = None"
    shows "sum_hours_saved_by_case_id net case_id st =
             (Some KeyError, st\<lparr>requests := requests st @ [GetCaseDetails case_id]\<rparr>) \<and>
           (for_case_ids net before st_in = (None, st) \<longrightarrow>
              for_case_ids net (before @ case_id # ids) st_in =
                (Some KeyError, st\<lparr>requests := requests st @ [GetCaseDetails case_id]\<rparr>)) \<and>
           (get_case_ids net s = (Inr (before @ case_id # ids), st_in) \<and>
            for_case_ids net before st_in = (None, st) \<longrightarrow>
              main_poc net s =
                (Some KeyError, st\<lparr>requests := requests st @ [GetCaseDetails case_id]\<rparr>)) \<and>
           (environ ''APP_KEY'' \<noteq> None \<and> environ ''BASE_URL'' \<noteq> None \<and>
            get_case_ids net (initial_state table start_time end_time) =
              (Inr (before @ case_id # ids), st_in) \<and>
            for_case_ids net before st_in = (None, st) \<longrightarrow>
              roi_report_poc table start_time end_time environ net =
                \<lparr>exit_code = 1, stderr = [Traceback KeyError],
                 final = st\<lparr>requests := requests st @ [GetCaseDetails case_id]\<rparr>\<rparr>)"
proof -
  let ?st1 = "st\<lparr>requests := requests st @ [GetCaseDetails case_id]\<rparr>"
  have one: "sum_hours_saved_by_case_id net case_id st = (Some KeyError, ?st1)"
    using assms playbook_attached_list_missing [of cards]
    by (simp add: sum_hours_saved_by_case_id_def Let_def)
  have loop: "for_case_ids net (before @ case_id # ids) st_in = (Some KeyError, ?st1)"
    if "for_case_ids net before st_in = (None, st)" for before ids st_in
    using that one by (simp add: for_case_ids_append)
  have main: "main_poc net s = (Some KeyError, ?st1)"
    if "get_case_ids net s = (Inr (before @ case_id # ids), st_in)"
       "for_case_ids net before st_in = (None, st)" for s before ids st_in
    using that loop [OF that(2), of ids] by (simp add: main_poc_def)
  have script: "roi_report_poc table start_time end_time environ net =
      \<lparr>exit_code = 1, stderr = [Traceback KeyError], final = ?st1\<rparr>"
    if "environ ''APP_KEY'' \<noteq> None" "environ ''BASE_URL'' \<noteq> None"
       "get_case_ids net (initial_state table start_time end_time) =
          (Inr (before @ case_id # ids), st_in)"
       "for_case_ids net before st_in = (None, st)"
    using that(1,2) main [OF that(3,4)]
    by (simp add: roi_report_poc_def missing_vars_def required_env_vars_def)
  from one loop main script show ?thesis by blast
qed

text \<open>
  The witness: a service whose only case has a card without the field, the table of the
  worked example and both variables in the environment.
\<close>

theorem C3_card_without_field_raises_witness:
  "status_code (net_card_without_field (GetCaseDetails (JNum 1))) = 200 \<and>
   json (net_card_without_field (GetCaseDetails (JNum 1))) ''alertCards'' =
     Some [[''playbookAttached'' \<mapsto> JStr ''A''], [''identifier'' \<mapsto> JStr ''card-2'']] \<and>
   (\<exists>card \<in> set [[''playbookAttached'' \<mapsto> JStr ''A''], [''identifier'' \<mapsto> JStr ''card-2'']].
      card ''playbookAttached'' = None) \<and>
   for_case_ids net_card_without_field [JNum 1]
       ((initial_state example_table 0 0)\<lparr>requests := [CaseSearchEverything 0 0]\<rparr>) =
     (Some KeyError, (initial_state example_table 0 0)
        \<lparr>requests := [CaseSearchEverything 0 0, GetCaseDetails (JNum 1)]\<rparr>) \<and>
   main_poc net_card_without_field (initial_state example_table 0 0) =
     (Some KeyError, (initial_state example_table 0 0)
        \<lparr>requests := [CaseSearchEverything 0 0, GetCaseDetails (JNum 1)]\<rparr>) \<and>
   roi_report_poc example_table 0 0
       [''APP_KEY'' \<mapsto> ''k'', ''BASE_URL'' \<mapsto> ''https://soar.example''] net_card_without_field =
     \<lparr>exit_code = 1, stderr = [Traceback KeyError],
      final = (initial_state example_table 0 0)
        \<lparr>requests := [CaseSearchEverything 0 0, GetCaseDetails (JNum 1)]\<rparr>\<rparr>"
proof -
  let ?cards = "[[''playbookAttached'' \<mapsto> JStr ''A''], [''identifier'' \<mapsto> JStr ''card-2'']]"
  let ?st = "(initial_state example_table 0 0)\<lparr>requests := [CaseSearchEverything 0 0]\<rparr>"
  let ?env = "[''APP_KEY'' \<mapsto> ''k'', ''BASE_URL'' \<mapsto> ''https://soar.example'']"
  have h1: "status_code (net_card_without_field (GetCaseDetails (JNum 1))) = 200"
    by (simp add: net_card_without_field_def)
  have h2: "json (net_card_without_field (GetCaseDetails (JNum 1))) ''alertCards'' = Some ?cards"
    by (simp add: net_card_without_field_def)
  have h3: "\<exists>card \<in> set ?cards. card ''playbookAttached'' = None"
    by simp
  have search: "get_case_ids net_card_without_field (initial_state example_table 0 0) =
      (Inr ([] @ JNum 1 # []), ?st)"
    by (simp add: get_case_ids_def net_card_without_field_def initial_state_def)
  have before: "for_case_ids net_card_without_field [] ?st = (None, ?st)"
    by simp
  have env: "?env ''APP_KEY'' \<noteq> None" "?env ''BASE_URL'' \<noteq> None"
    by simp_all
  have trace: "?st\<lparr>requests := requests ?st @ [GetCaseDetails (JNum 1)]\<rparr> =
      (initial_state example_table 0 0)
        \<lparr>requests := [CaseSearchEverything 0 0, GetCaseDetails (JNum 1)]\<rparr>"
    by (simp add: initial_state_def)
  from C3_card_without_field_raises
      [where net = net_card_without_field and case_id = "JNum 1" and cards = ?cards
         and st = ?st and before = "[]" and st_in = ?st and ids = "[]"
         and s = "initial_state example_table 0 0" and environ = ?env
         and table = example_table and start_time = 0 and end_time = 0]
    search before env trace h1 h2 h3
  show ?thesis by simp
qed

section \<open>The case search\<close>

lemma case_id_list_ids:
  "map (\<lambda>result. result ''id'') results = map Some ids \<Longrightarrow> case_id_list results = Inr ids"
  by (induction results arbitrary: ids) auto

text \<open>
  Claim C6. When the case search answers with a status other than 200, the Case Lister
  prints the status and the body and returns the empty list without raising; the
  single-window script then ends normally: its only request is the search (no detail
  fetch), Running Totals is as it was at the start, that is empty, and after the error
  line it prints the report, the header and the Running Totals, which are empty. When
  the search answers 200 with a \<^verbatim>\<open>results\<close> array whose elements carry the identifiers
  \<open>ids\<close>, in this order, the Case Lister returns exactly \<open>ids\<close>.
\<close>

theorem C6_case_search:
  "(status_code (net (CaseSearchEverything (startTime st) (endTime st))) \<noteq> 200 \<longrightarrow>
      get_case_ids net st =
        (Inr [], st\<lparr>requests := requests st @ [CaseSearchEverything (startTime st) (endTime st)],
                    stdout := stdout st @
                      [ErrorLine (status_code (net (CaseSearchEverything (startTime st) (endTime st))))
                                 (response_text (net (CaseSearchEverything (startTime st) (endTime st))))]\<rparr>) \<and>
      main_poc net st =
        (None, st\<lparr>requests := requests st @ [CaseSearchEverything (startTime st) (endTime st)],
                  stdout := stdout st @
                    [ErrorLine (status_code (net (CaseSearchEverything (startTime st) (endTime st))))
                               (response_text (net (CaseSearchEverything (startTime st) (endTime st)))),
                     Line (replicate 3 (CHR 0x0A) @ ''Hours saved by playbook:'' @ [CHR 0x0A]),
                     PPrint (roi_counts st)]\<rparr>) \<and>
      fst (main_poc net st) = None \<and>
      roi_counts (snd (main_poc net st)) = roi_counts st \<and>
      requests (snd (main_poc net st)) =
        requests st @ [CaseSearchEverything (startTime st) (endTime st)]) \<and>
   (status_code (net (CaseSearchEverything (startTime st) (endTime st))) = 200 \<and>
    json (net (CaseSearchEverything (startTime st) (endTime st))) ''results'' = Some results \<and>
    map (\<lambda>result. result ''id'') results = map Some ids \<longrightarrow>
      fst (get_case_ids net st) = Inr ids)"
  by (auto simp add: get_case_ids_def main_poc_def Let_def case_id_list_ids)

theorem C6_case_search_witness:
  "status_code (net_unavailable (CaseSearchEverything 0 0)) \<noteq> 200 \<and>
   fst (get_case_ids net_unavailable (initial_state example_table 0 0)) = Inr [] \<and>
   fst (main_poc net_unavailable (initial_state example_table 0 0)) = None \<and>
   roi_counts (snd (main_poc net_unavailable (initial_state example_table 0 0))) = DAList.empty \<and>
   requests (snd (main_poc net_unavailable (initial_state example_table 0 0))) =
     [CaseSearchEverything 0 0] \<and>
   stdout (snd (main_poc net_unavailable (initial_state example_table 0 0))) =
     [ErrorLine 503 ''Service Unavailable'',
      Line (replicate 3 (CHR 0x0A) @ ''Hours saved by playbook:'' @ [CHR 0x0A]),
      PPrint DAList.empty] \<and>
   status_code (example_net (CaseSearchEverything 0 0)) = 200 \<and>
   json (example_net (CaseSearchEverything 0 0)) ''results'' =
     Some [[''id'' \<mapsto> JNum 1], [''id'' \<mapsto> JNum 2]] \<and>
   fst (get_case_ids example_net (initial_state example_table 0 0)) = Inr [JNum 1, JNum 2]"
  using C6_case_search [of net_unavailable "initial_state example_table 0 0"]
        C6_case_search [of example_net "initial_state example_table 0 0"
          "[[''id'' \<mapsto> JNum 1], [''id'' \<mapsto> JNum 2]]" "[JNum 1, JNum 2]"]
  by (simp add: net_unavailable_def example_net_def initial_state_def)

section \<open>The check of the environment\<close>

text \<open>
  Claim C8. When \<^verbatim>\<open>APP_KEY\<close> or \<^verbatim>\<open>BASE_URL\<close> is absent from the environment, the script
  writes to standard error the diagnostic that names the missing variable or variables,
  exits with code 1 and has issued no request. When both are present, the script goes on
  to its main block: its final state is the one the main block leaves, and the exit code
  is 0 when the main block ends normally.
\<close>

theorem C8_required_environment:
  "(environ ''APP_KEY'' = None \<or> environ ''BASE_URL'' = None \<longrightarrow>
      exit_code (roi_report_poc table s e environ net) = 1 \<and>
      stderr (roi_report_poc table s e environ net) =
        [Message (''Error: The following environment variables are missing: '' @
           (if environ ''APP_KEY'' = None \<and> environ ''BASE_URL'' = None then ''APP_KEY, BASE_URL''
            else if environ ''APP_KEY'' = None then ''APP_KEY'' else ''BASE_URL''))] \<and>
      requests (final (roi_report_poc table s e environ net)) = []) \<and>
   (environ ''APP_KEY'' \<noteq> None \<and> environ ''BASE_URL'' \<noteq> None \<longrightarrow>
      final (roi_report_poc table s e environ net) = snd (main_poc net (initial_state table s e)) \<and>
      stderr (roi_report_poc table s e environ net) =
        (case fst (main_poc net (initial_state table s e)) of
           None \<Rightarrow> [] | Some err \<Rightarrow> [Traceback err]) \<and>
      exit_code (roi_report_poc table s e environ net) =
        (if fst (main_poc net (initial_state table s e)) = None then 0 else 1))"
  by (auto simp add: roi_report_poc_def missing_vars_def required_env_vars_def error_message_def
      initial_state_def split: prod.splits option.splits)

theorem C8_required_environment_witness:
  "[''APP_KEY'' \<mapsto> ''k''] ''BASE_URL'' = None \<and>
   exit_code (roi_report_poc example_table 0 0 [''APP_KEY'' \<mapsto> ''k''] net_unavailable) = 1 \<and>
   stderr (roi_report_poc example_table 0 0 [''APP_KEY'' \<mapsto> ''k''] net_unavailable) =
     [Message ''Error: The following environment variables are missing: BASE_URL''] \<and>
   requests (final (roi_report_poc example_table 0 0 [''APP_KEY'' \<mapsto> ''k''] net_unavailable)) = [] \<and>
   [''APP_KEY'' \<mapsto> ''k'', ''BASE_URL'' \<mapsto> ''https://soar.example''] ''APP_KEY'' \<noteq> None \<and>
   [''APP_KEY'' \<mapsto> ''k'', ''BASE_URL'' \<mapsto> ''https://soar.example''] ''BASE_URL'' \<noteq> None \<and>
   exit_code (roi_report_poc example_table 0 0
      [''APP_KEY'' \<mapsto> ''k'', ''BASE_URL'' \<mapsto> ''https://soar.example''] net_unavailable) = 0"
proof -
  have completes: "fst (main_poc net_unavailable (initial_state example_table 0 0)) = None"
    by (simp add: main_poc_def get_case_ids_def net_unavailable_def initial_state_def)
  show ?thesis
    using C8_required_environment [of "[''APP_KEY'' \<mapsto> ''k'']" example_table 0 0 net_unavailable]
          C8_required_environment
            [of "[''APP_KEY'' \<mapsto> ''k'', ''BASE_URL'' \<mapsto> ''https://soar.example'']"
                example_table 0 0 net_unavailable]
          completes
    by simp
qed

section \<open>Running Totals only grows\<close>

lemma count_playbook_table:
  "playbook_time_def_map (snd (count_playbook pb st)) = playbook_time_def_map st"
  by (simp add: count_playbook_def split: option.splits)

lemma count_playbook_grows:
  assumes "\<forall>k m. playbook_time_def_map st k = Some m \<longrightarrow> 0 \<le> m"
      and "DAList.lookup (roi_counts st) k = Some v"
    shows "\<exists>v'. DAList.lookup (roi_counts (snd (count_playbook pb st))) k = Some v' \<and> v \<le> v'"
proof (cases "pb = k")
  case False
  then show ?thesis using assms(2)
    by (simp add: count_playbook_def DAList.lookup_update split: option.splits)
next
  case True
  show ?thesis
  proof (cases "playbook_time_def_map st k")
    case None
    then show ?thesis using assms(2) True by (simp add: count_playbook_def)
  next
    case (Some m)
    with assms(1) have "0 \<le> m" by blast
    then show ?thesis using assms(2) True Some by (simp add: count_playbook_def)
  qed
qed

lemma for_playbooks_table:
  "playbook_time_def_map (snd (for_playbooks pbs st)) = playbook_time_def_map st"
proof (induction pbs arbitrary: st)
  case Nil
  show ?case by simp
next
  case (Cons pb pbs)
  obtain e st' where step: "count_playbook pb st = (e, st')" by (cases "count_playbook pb st")
  have tbl: "playbook_time_def_map st' = playbook_time_def_map st"
    using count_playbook_table [of pb st] step by simp
  show ?case
  proof (cases e)
    case None
    with step tbl Cons.IH [of st'] show ?thesis by simp
  next
    case (Some err)
    with step tbl show ?thesis by simp
  qed
qed

lemma for_playbooks_grows:
  assumes "\<forall>k m. playbook_time_def_map st k = Some m \<longrightarrow> 0 \<le> m"
      and "DAList.lookup (roi_counts st) k = Some v"
    shows "\<exists>v'. DAList.lookup (roi_counts (snd (for_playbooks pbs st))) k = Some v' \<and> v \<le> v'"
  using assms
proof (induction pbs arbitrary: st v)
  case Nil
  then show ?case by simp
next
  case (Cons pb pbs)
  obtain e st' where step: "count_playbook pb st = (e, st')" by (cases "count_playbook pb st")
  have tbl: "playbook_time_def_map st' = playbook_time_def_map st"
    using count_playbook_table [of pb st] step by simp
  obtain v1 where v1: "DAList.lookup (roi_counts st') k = Some v1" "v \<le> v1"
    using count_playbook_grows [OF Cons.prems(1) Cons.prems(2), of pb] step by auto
  show ?case
  proof (cases e)
    case None
    have "\<forall>k m. playbook_time_def_map st' k = Some m \<longrightarrow> 0 \<le> m"
      using Cons.prems(1) tbl by simp
    from Cons.IH [OF this v1(1)] obtain v' where
      "DAList.lookup (roi_counts (snd (for_playbooks pbs st'))) k = Some v'" "v1 \<le> v'" by blast
    with v1(2) step None show ?thesis by auto
  next
    case (Some err)
    with step v1 show ?thesis by simp
  qed
qed

lemma sum_hours_table:
  "playbook_time_def_map (snd (sum_hours_saved_by_case_id net case_id st)) = playbook_time_def_map st"
proof -
  have loop: "playbook_time_def_map st' = playbook_time_def_map st"
    if "for_playbooks pbs (st\<lparr>requests := r\<rparr>) = (e, st')" for pbs r e st'
    using for_playbooks_table [of pbs "st\<lparr>requests := r\<rparr>"] that by simp
  show ?thesis
    by (auto simp add: sum_hours_saved_by_case_id_def Let_def
        split: option.splits sum.splits prod.splits dest: loop)
qed

lemma sum_hours_grows:
  assumes "\<forall>k m. playbook_time_def_map st k = Some m \<longrightarrow> 0 \<le> m"
      and "DAList.lookup (roi_counts st) k = Some v"
    shows "\<exists>v'. DAList.lookup (roi_counts (snd (sum_hours_saved_by_case_id net case_id st))) k = Some v' \<and> v \<le> v'"
proof -
  have loop: "\<exists>v'. DAList.lookup (roi_counts st') k = Some v' \<and> v \<le> v'"
    if "for_playbooks pbs (st\<lparr>requests := r\<rparr>) = (e, st')" for pbs r e st'
    using for_playbooks_grows [of "st\<lparr>requests := r\<rparr>" k v pbs] assms that by simp
  show ?thesis using assms(2)
    by (auto simp add: sum_hours_saved_by_case_id_def Let_def
        split: option.splits sum.splits prod.splits dest: loop)
qed

text \<open>
  Claim C10. Whatever a call of the per-case aggregation step does (it accumulates, the
  detail fetch fails, the penalty branch is taken, or an exception ends it), the state
  it leaves has the same Playbook Time Table as before, and, the values of the table
  being non-negative, every key of Running Totals is still a key, with a value that is
  not less than before. This holds for \<open>sum_hours_saved_by_case_id\<close> and for
  \<open>sum_minutes_saved_by_case_id\<close>.
\<close>

theorem C10_totals_never_shrink:
  assumes "\<forall>k m. playbook_time_def_map st k = Some m \<longrightarrow> 0 \<le> m"
  shows "playbook_time_def_map (snd (sum_hours_saved_by_case_id net case_id st)) = playbook_time_def_map st \<and>
         (\<forall>k v. DAList.lookup (roi_counts st) k = Some v \<longrightarrow>
            (\<exists>v'. DAList.lookup (roi_counts (snd (sum_hours_saved_by_case_id net case_id st))) k = Some v' \<and> v \<le> v')) \<and>
         playbook_time_def_map (snd (sum_minutes_saved_by_case_id net case_id st)) = playbook_time_def_map st \<and>
         (\<forall>k v. DAList.lookup (roi_counts st) k = Some v \<longrightarrow>
            (\<exists>v'. DAList.lookup (roi_counts (snd (sum_minutes_saved_by_case_id net case_id st))) k = Some v' \<and> v \<le> v'))"
  using sum_hours_table [of net case_id st] sum_hours_grows [OF assms, of _ _ net case_id]
  unfolding sum_minutes_saved_by_case_id_def by blast

theorem C10_totals_never_shrink_witness:
  "playbook_time_def_map (snd (sum_hours_saved_by_case_id example_net (JNum 2)
      ((initial_state example_table 0 0)\<lparr>roi_counts := DAList.update (JStr ''A'') 30 DAList.empty\<rparr>))) = example_table \<and>
   (\<exists>v'. DAList.lookup (roi_counts (snd (sum_hours_saved_by_case_id example_net (JNum 2)
      ((initial_state example_table 0 0)\<lparr>roi_counts := DAList.update (JStr ''A'') 30 DAList.empty\<rparr>)))) (JStr ''A'') = Some v' \<and> 30 \<le> v')"
proof -
  let ?st = "(initial_state example_table 0 0)\<lparr>roi_counts := DAList.update (JStr ''A'') 30 DAList.empty\<rparr>"
  have nonneg: "\<forall>k m. playbook_time_def_map ?st k = Some m \<longrightarrow> 0 \<le> m"
    by (simp add: initial_state_def example_table_def)
  have tbl: "playbook_time_def_map ?st = example_table" by (simp add: initial_state_def)
  have there: "DAList.lookup (roi_counts ?st) (JStr ''A'') = Some 30" by simp
  from C10_totals_never_shrink [OF nonneg, of example_net "JNum 2"] tbl there show ?thesis by metis
qed

section \<open>The grand total of the multi-day script\<close>

lemma add_minutes_lookup:
  "distinct (map fst items) \<Longrightarrow>
   DAList.lookup (add_minutes items grand) P =
     (case map_of items P of
        None \<Rightarrow> DAList.lookup grand P
      | Some m \<Rightarrow> Some (case DAList.lookup grand P of Some t \<Rightarrow> t + m | None \<Rightarrow> m))"
proof (induction items arbitrary: grand)
  case Nil
  show ?case by simp
next
  case (Cons item items)
  obtain playbook minutes where item: "item = (playbook, minutes)" by (cases item)
  from Cons.prems item have fresh: "map_of items playbook = None" and rest: "distinct (map fst items)"
    by (auto simp add: map_of_eq_None_iff)
  show ?case
  proof (cases "playbook = P")
    case True
    with fresh rest item Cons.IH show ?thesis
      by (simp add: DAList.lookup_update split: option.splits)
  next
    case False
    with rest item Cons.IH show ?thesis
      by (simp add: DAList.lookup_update split: option.splits)
  qed
qed

lemma add_minutes_totals:
  "DAList.lookup (add_minutes (DAList.impl_of day) grand) P =
     (case DAList.lookup day P of
        None \<Rightarrow> DAList.lookup grand P
      | Some m \<Rightarrow> Some (case DAList.lookup grand P of Some t \<Rightarrow> t + m | None \<Rightarrow> m))"
  using add_minutes_lookup [of "DAList.impl_of day" grand P]
  by (simp add: DAList.lookup.rep_eq)

lemma for_days_iteration:
  assumes "fst (for_days net utcnow (i # is) (rep, st)) = None"
  shows "\<exists>rep1 st2.
           (\<forall>xs. for_days net utcnow (i # xs) (rep, st) = for_days net utcnow xs (rep1, st2)) \<and>
           total_minutes_saved rep1 =
             add_minutes (DAList.impl_of (roi_counts st2)) (total_minutes_saved rep)"
proof -
  obtain start_date end_date where w: "day_window (utcnow i) i = (start_date, end_date)"
    by (cases "day_window (utcnow i) i")
  let ?st0 = "st\<lparr>startTime := start_date, endTime := end_date, roi_counts := DAList.empty\<rparr>"
  obtain r st1 where g: "get_case_ids net ?st0 = (r, st1)" by (cases "get_case_ids net ?st0")
  show ?thesis
  proof (cases r)
    case (Inl e)
    with assms w g show ?thesis by simp
  next
    case (Inr ids)
    obtain e st2 where c: "for_case_ids net ids st1 = (e, st2)"
      by (cases "for_case_ids net ids st1")
    show ?thesis
    proof (cases e)
      case (Some err)
      with assms w g Inr c show ?thesis by simp
    next
      case None
      let ?rep1 = "\<lparr>all_roi_counts =
                      DAList.update (start_date div usec_per_day) (roi_counts st2) (all_roi_counts rep),
                    total_minutes_saved =
                      add_minutes (DAList.impl_of (roi_counts st2)) (total_minutes_saved rep)\<rparr>"
      have "\<forall>xs. for_days net utcnow (i # xs) (rep, st) = for_days net utcnow xs (?rep1, st2)"
        using w g Inr c None by simp
      moreover have "total_minutes_saved ?rep1 =
          add_minutes (DAList.impl_of (roi_counts st2)) (total_minutes_saved rep)" by simp
      ultimately show ?thesis by blast
    qed
  qed
qed

lemma day_totals_Cons:
  assumes "\<forall>xs. for_days net utcnow (i # xs) s = for_days net utcnow xs (rep1, st2)"
  shows "day_totals net utcnow (i # is) s = roi_counts st2 # day_totals net utcnow is (rep1, st2)"
proof -
  have "for_days net utcnow [i] s = (None, rep1, st2)" using assms by simp
  then show ?thesis
    using assms by (simp add: day_totals_def map_upt_Suc del: upt_Suc for_days.simps)
qed

lemma fold_days:
  "foldl (\<lambda>a d. case DAList.lookup d P of
                   None \<Rightarrow> a
                 | Some m \<Rightarrow> Some (case a of Some t \<Rightarrow> t + m | None \<Rightarrow> m)) a days =
     (case a of
        Some t \<Rightarrow> Some (t + (\<Sum>d\<leftarrow>days. (case DAList.lookup d P of Some m \<Rightarrow> m | None \<Rightarrow> 0)))
      | None \<Rightarrow> expected_grand_total days P)"
  by (induction days arbitrary: a)
     (auto simp add: expected_grand_total_def split: option.splits)

lemma for_days_total:
  assumes "fst (for_days net utcnow is (rep, st)) = None"
  shows "DAList.lookup (total_minutes_saved (fst (snd (for_days net utcnow is (rep, st))))) P =
           foldl (\<lambda>a d. case DAList.lookup d P of
                           None \<Rightarrow> a
                         | Some m \<Rightarrow> Some (case a of Some t \<Rightarrow> t + m | None \<Rightarrow> m))
             (DAList.lookup (total_minutes_saved rep) P)
             (day_totals net utcnow is (rep, st))"
  using assms
proof (induction "is" arbitrary: rep st)
  case Nil
  show ?case by (simp add: day_totals_def)
next
  case (Cons i "is")
  from for_days_iteration [OF Cons.prems] obtain rep1 st2 where
    step: "\<forall>xs. for_days net utcnow (i # xs) (rep, st) = for_days net utcnow xs (rep1, st2)" and
    tot: "total_minutes_saved rep1 =
            add_minutes (DAList.impl_of (roi_counts st2)) (total_minutes_saved rep)"
    by blast
  from step have whole: "for_days net utcnow (i # is) (rep, st) = for_days net utcnow is (rep1, st2)"
    by blast
  with Cons.prems have "fst (for_days net utcnow is (rep1, st2)) = None" by simp
  from Cons.IH [OF this] whole day_totals_Cons [OF step, of "is"] tot
  show ?case
    by (simp add: add_minutes_totals del: for_days.simps)
qed

text \<open>
  Claim C7. When the day loop of the multi-day script has run its \<open>N\<close> iterations to the
  end, the entry of the grand total \<^verbatim>\<open>total_minutes_saved\<close> for a playbook name \<open>P\<close> is
  the sum, over the \<open>N\<close> iterations, of the entry for \<open>P\<close> in the Running Totals of that
  iteration, an iteration without an entry counting 0; and the grand total has an entry
  for \<open>P\<close> exactly when the Running Totals of some iteration has one. The script itself
  runs the loop with \<open>N = 3\<close>, and the same holds of it when it ends normally, whatever
  draws the charts.
\<close>

theorem C7_grand_total:
  "(fst (for_days net utcnow [0..<N] (empty_report, st)) = None \<longrightarrow>
      DAList.lookup (total_minutes_saved (fst (snd (for_days net utcnow [0..<N] (empty_report, st))))) P =
        expected_grand_total (day_totals net utcnow [0..<N] (empty_report, st)) P) \<and>
   (fst (main_seaborn barplot pie net utcnow st) = None \<longrightarrow>
      DAList.lookup (total_minutes_saved (fst (snd (main_seaborn barplot pie net utcnow st)))) P =
        expected_grand_total (day_totals net utcnow [0..<3] (empty_report, st)) P)"
proof -
  have loop: "DAList.lookup (total_minutes_saved (fst (snd (for_days net utcnow [0..<n] (empty_report, st))))) P =
        expected_grand_total (day_totals net utcnow [0..<n] (empty_report, st)) P"
    if "fst (for_days net utcnow [0..<n] (empty_report, st)) = None" for n
    using for_days_total [OF that, of P] by (simp add: fold_days empty_report_def)
  have main: "fst (for_days net utcnow [0..<3] (empty_report, st)) = None \<and>
      fst (snd (main_seaborn barplot pie net utcnow st)) =
        fst (snd (for_days net utcnow [0..<3] (empty_report, st)))"
    if "fst (main_seaborn barplot pie net utcnow st) = None"
    using that by (simp add: main_seaborn_def split: prod.splits option.splits)
  from loop main show ?thesis by simp
qed

text \<open>
  The witness is a run in which both charts are drawn: the service knows the two cases of
  the worked example on each of the three days.
\<close>

theorem C7_grand_total_witness:
  "fst (for_days example_net (\<lambda>i. 0) [0..<3] (empty_report, initial_state example_table 0 0)) = None \<and>
   fst (main_seaborn (\<lambda>rows. None) (\<lambda>grand. None) example_net (\<lambda>i. 0)
          (initial_state example_table 0 0)) = None \<and>
   expected_grand_total
     (day_totals example_net (\<lambda>i. 0) [0..<3] (empty_report, initial_state example_table 0 0))
     (JStr ''A'') = Some 180"
proof -
  have run: "fst (for_days example_net (\<lambda>i. 0) [0..<3] (empty_report, initial_state example_table 0 0)) = None \<and>
     DAList.lookup (total_minutes_saved (fst (snd (for_days example_net (\<lambda>i. 0) [0..<3]
        (empty_report, initial_state example_table 0 0))))) (JStr ''A'') = Some 180"
    by (simp add: upt_rec get_case_ids_def sum_hours_saved_by_case_id_def count_playbook_def
      initial_state_def example_net_def example_table_def DAList.lookup_update day_window_def
      DAList.update.rep_eq DAList.empty.rep_eq empty_report_def Let_def)
  then have main: "fst (main_seaborn (\<lambda>rows. None) (\<lambda>grand. None) example_net (\<lambda>i. 0)
      (initial_state example_table 0 0)) = None"
    by (auto simp add: main_seaborn_def split: prod.splits option.splits)
  from C7_grand_total [of example_net "\<lambda>i. 0" 3 "initial_state example_table 0 0" "JStr ''A''"
      "\<lambda>rows. None" "\<lambda>grand. None"] run main
  show ?thesis by simp
qed

end
